theory Spec2Isabelle
  imports Main
begin

section \<open>The view-state controller of frontend-web/src/App.js\<close>

text \<open>
  The component \<^verbatim>\<open>App\<close> keeps six pieces of React state, reads and writes the
  browser's \<^verbatim>\<open>localStorage\<close>, and calls three functions of \<^verbatim>\<open>./services/api\<close>
  (\<^verbatim>\<open>getLatestDataset\<close>, \<^verbatim>\<open>logout\<close>, \<^verbatim>\<open>downloadPDF\<close>). The embedding passes the
  state explicitly and records every effect of a handler, in the order the handler
  performs it, in a trace.

  The three gateway functions are imported, not defined, by \<^verbatim>\<open>App.js\<close>, and their
  file is not among the sources. A call of one enters the embedding as the way its
  promise settles: it resolves with a result or rejects with an error. What the
  specification says a gateway function does beyond that, which is that \<^verbatim>\<open>logout\<close>
  clears the session store, is a definition of its own, \<open>logout\<close> below, written from
  the specification and kept apart from the handlers written from \<^verbatim>\<open>App.js\<close>.
\<close>

subsection \<open>Data\<close>

text \<open>
  A dataset is an object with an \<^verbatim>\<open>id\<close> (the only field a handler reads) and further
  fields the controller never inspects. The field \<^verbatim>\<open>id\<close> is named \<open>id_field\<close> here.
\<close>

record ('i, 'p) dataset =
  id_field :: 'i
  payload :: 'p

text \<open>The argument of \<^verbatim>\<open>handleUploadSuccess\<close>: an object whose \<^verbatim>\<open>dataset\<close> field is read;
  \<open>None\<close> stands for \<^verbatim>\<open>null\<close> or \<^verbatim>\<open>undefined\<close>.\<close>

record ('i, 'p) upload_data =
  dataset :: "('i, 'p) dataset option"

text \<open>
  What a handler can catch: a rejection of a gateway call that carries an HTTP response
  with a status, one that carries no response, and the \<^verbatim>\<open>SyntaxError\<close> of
  \<^verbatim>\<open>JSON.parse\<close>.
\<close>

datatype js_error = HttpError int | NetworkError | SyntaxError

text \<open>\<^verbatim>\<open>err.response?.status\<close>; \<open>None\<close> is \<^verbatim>\<open>undefined\<close>.\<close>

definition response_status :: "js_error \<Rightarrow> int option" where
  "response_status err =
     (case err of HttpError s \<Rightarrow> Some s | NetworkError \<Rightarrow> None | SyntaxError \<Rightarrow> None)"

text \<open>How an awaited promise settles.\<close>

datatype 'a settled = Resolved 'a | Rejected js_error

text \<open>How a handler ends: it returns (an \<^verbatim>\<open>async\<close> handler's promise is fulfilled), or
  an error leaves it uncaught (the promise is rejected).\<close>

datatype completion = Completed | Threw js_error

text \<open>The calls into \<^verbatim>\<open>./services/api\<close>.\<close>

datatype 'i api_call = GetLatestDataset | Logout | DownloadPDF 'i

text \<open>Every effect a handler has: the six state setters, \<^verbatim>\<open>localStorage.setItem\<close>,
  \<^verbatim>\<open>console.error\<close> and the gateway calls.\<close>

datatype ('u, 'i, 'p) effect =
    SetCurrentDataset "('i, 'p) dataset option"
  | SetLoading bool
  | SetError "string option"
  | SetIsAuthenticated bool
  | SetUser "'u option"
  | SetActiveTab string
  | StorageSetItem string string
  | ConsoleError js_error
  | Call "'i api_call"

text \<open>
  The six \<^verbatim>\<open>useState\<close> cells (\<open>None\<close> is \<^verbatim>\<open>null\<close>), the \<^verbatim>\<open>localStorage\<close> of the
  page, and the trace of the effects performed so far, oldest first.
\<close>

record ('u, 'i, 'p) world =
  currentDataset :: "('i, 'p) dataset option"
  loading :: bool
  error :: "string option"
  isAuthenticated :: bool
  user :: "'u option"
  activeTab :: string
  localStorage :: "string \<rightharpoonup> string"
  trace :: "('u, 'i, 'p) effect list"

text \<open>\<^verbatim>\<open>JSON.parse\<close> and \<^verbatim>\<open>JSON.stringify\<close> are the JavaScript built-ins; they enter
  as parameters. \<open>parse\<close> throws a \<^verbatim>\<open>SyntaxError\<close> on text that is not JSON and yields
  \<open>None\<close> on the text \<^verbatim>\<open>null\<close>; \<open>stringify\<close> is applied to user records that have a
  JSON text.\<close>

record 'u JSON =
  parse :: "string \<Rightarrow> js_error + 'u option"
  stringify :: "'u \<Rightarrow> string"

subsection \<open>Initial state and primitive effects\<close>

text \<open>The initial values of the \<^verbatim>\<open>useState\<close> calls (lines 26 to 39), over a given
  \<^verbatim>\<open>localStorage\<close>.\<close>

definition initial :: "(string \<rightharpoonup> string) \<Rightarrow> ('u, 'i, 'p) world" where
  "initial store =
     \<lparr> currentDataset = None, loading = False, error = None, isAuthenticated = False,
       user = None, activeTab = ''upload'', localStorage = store, trace = [] \<rparr>"

definition emit :: "('u, 'i, 'p) effect \<Rightarrow> ('u, 'i, 'p) world \<Rightarrow> ('u, 'i, 'p) world" where
  "emit e w = w\<lparr>trace := trace w @ [e]\<rparr>"

definition setCurrentDataset ::
  "('i, 'p) dataset option \<Rightarrow> ('u, 'i, 'p) world \<Rightarrow> ('u, 'i, 'p) world" where
  "setCurrentDataset d w = emit (SetCurrentDataset d) (w\<lparr>currentDataset := d\<rparr>)"

definition setLoading :: "bool \<Rightarrow> ('u, 'i, 'p) world \<Rightarrow> ('u, 'i, 'p) world" where
  "setLoading b w = emit (SetLoading b) (w\<lparr>loading := b\<rparr>)"

definition setError :: "string option \<Rightarrow> ('u, 'i, 'p) world \<Rightarrow> ('u, 'i, 'p) world" where
  "setError m w = emit (SetError m) (w\<lparr>error := m\<rparr>)"

definition setIsAuthenticated :: "bool \<Rightarrow> ('u, 'i, 'p) world \<Rightarrow> ('u, 'i, 'p) world" where
  "setIsAuthenticated b w = emit (SetIsAuthenticated b) (w\<lparr>isAuthenticated := b\<rparr>)"

definition setUser :: "'u option \<Rightarrow> ('u, 'i, 'p) world \<Rightarrow> ('u, 'i, 'p) world" where
  "setUser u w = emit (SetUser u) (w\<lparr>user := u\<rparr>)"

definition setActiveTab :: "string \<Rightarrow> ('u, 'i, 'p) world \<Rightarrow> ('u, 'i, 'p) world" where
  "setActiveTab t w = emit (SetActiveTab t) (w\<lparr>activeTab := t\<rparr>)"

definition localStorage_getItem :: "string \<Rightarrow> ('u, 'i, 'p) world \<Rightarrow> string option" where
  "localStorage_getItem k w = localStorage w k"

definition localStorage_setItem ::
  "string \<Rightarrow> string \<Rightarrow> ('u, 'i, 'p) world \<Rightarrow> ('u, 'i, 'p) world" where
  "localStorage_setItem k v w =
     emit (StorageSetItem k v) (w\<lparr>localStorage := (localStorage w)(k \<mapsto> v)\<rparr>)"

definition console_error :: "js_error \<Rightarrow> ('u, 'i, 'p) world \<Rightarrow> ('u, 'i, 'p) world" where
  "console_error e w = emit (ConsoleError e) w"

definition call :: "'i api_call \<Rightarrow> ('u, 'i, 'p) world \<Rightarrow> ('u, 'i, 'p) world" where
  "call c w = emit (Call c) w"

text \<open>Statements in source order: \<open>run [f, g, h] w\<close> performs \<open>f\<close>, then \<open>g\<close>, then \<open>h\<close>.\<close>

definition run :: "('s \<Rightarrow> 's) list \<Rightarrow> 's \<Rightarrow> 's" where
  "run fs w = foldl (\<lambda>s f. f s) w fs"

text \<open>JavaScript truthiness of what \<^verbatim>\<open>localStorage.getItem\<close> returns: \<^verbatim>\<open>null\<close> and
  the empty string are falsy, every other string is truthy.\<close>

definition truthy :: "string option \<Rightarrow> bool" where
  "truthy v = (case v of None \<Rightarrow> False | Some s \<Rightarrow> s \<noteq> [])"

subsection \<open>The handlers\<close>

text \<open>
  An \<^verbatim>\<open>async\<close> handler runs synchronously up to its \<^verbatim>\<open>await\<close> (\<open>_start\<close>), is
  suspended while other handlers may run, and continues on the state of that later
  moment when the awaited call settles (\<open>_resume\<close>). No handler reads the state after
  its \<^verbatim>\<open>await\<close>, so the continuation is a function of the settlement alone.

  \<^verbatim>\<open>loadLatestDataset\<close> (lines 58 to 72): \<^verbatim>\<open>try { setLoading(true); data = await
  getLatestDataset(); setCurrentDataset(data); setError(null) } catch (err) { if
  (err.response?.status !== 404) console.error(..) } finally { setLoading(false) }\<close>.
\<close>

definition loadLatestDataset_start :: "('u, 'i, 'p) world \<Rightarrow> ('u, 'i, 'p) world" where
  "loadLatestDataset_start = run [setLoading True, call GetLatestDataset]"

definition loadLatestDataset_resume ::
  "('i, 'p) dataset option settled \<Rightarrow> ('u, 'i, 'p) world \<Rightarrow> ('u, 'i, 'p) world" where
  "loadLatestDataset_resume r =
     run [case r of
            Resolved data \<Rightarrow> run [setCurrentDataset data, setError None]
          | Rejected err \<Rightarrow>
              (if response_status err \<noteq> Some 404 then console_error err else run []),
          setLoading False]"

definition loadLatestDataset ::
  "('i, 'p) dataset option settled \<Rightarrow> ('u, 'i, 'p) world \<Rightarrow> ('u, 'i, 'p) world" where
  "loadLatestDataset r w = loadLatestDataset_resume r (loadLatestDataset_start w)"

text \<open>
  The mount effect (lines 42 to 53), up to the \<^verbatim>\<open>await\<close> inside \<^verbatim>\<open>loadLatestDataset\<close>.
  The test \<^verbatim>\<open>token && savedUser\<close> holds when both items are present and not empty; in
  that branch \<^verbatim>\<open>savedUser\<close> is a string \<open>s\<close>, the argument of \<^verbatim>\<open>JSON.parse\<close>. When
  \<^verbatim>\<open>JSON.parse\<close> throws, \<^verbatim>\<open>setIsAuthenticated(true)\<close> has run and \<^verbatim>\<open>loadLatestDataset\<close>
  is never called.
\<close>

definition mount_effect ::
  "'u JSON \<Rightarrow> ('u, 'i, 'p) world \<Rightarrow> ('u, 'i, 'p) world \<times> completion" where
  "mount_effect J w =
     (let token = localStorage_getItem ''authToken'' w;
          savedUser = localStorage_getItem ''user'' w
      in case savedUser of
           None \<Rightarrow> (loadLatestDataset_start w, Completed)
         | Some s \<Rightarrow>
             if truthy token \<and> truthy savedUser then
               (case parse J s of
                  Inl e \<Rightarrow> (setIsAuthenticated True w, Threw e)
                | Inr u \<Rightarrow>
                    (run [setIsAuthenticated True, setUser u, loadLatestDataset_start] w,
                     Completed))
             else (loadLatestDataset_start w, Completed))"

text \<open>\<^verbatim>\<open>handleUploadSuccess\<close> (lines 77 to 81).\<close>

definition handleUploadSuccess ::
  "('i, 'p) upload_data \<Rightarrow> ('u, 'i, 'p) world \<Rightarrow> ('u, 'i, 'p) world" where
  "handleUploadSuccess data =
     run [setCurrentDataset (dataset data), setActiveTab ''summary'', setError None]"

text \<open>\<^verbatim>\<open>handleSelectDataset\<close> (lines 86 to 89).\<close>

definition handleSelectDataset ::
  "('i, 'p) dataset option \<Rightarrow> ('u, 'i, 'p) world \<Rightarrow> ('u, 'i, 'p) world" where
  "handleSelectDataset d = run [setCurrentDataset d, setActiveTab ''summary'']"

text \<open>\<^verbatim>\<open>handleLoginSuccess\<close> (lines 94 to 99).\<close>

definition handleLoginSuccess ::
  "'u JSON \<Rightarrow> 'u \<Rightarrow> string \<Rightarrow> ('u, 'i, 'p) world \<Rightarrow> ('u, 'i, 'p) world" where
  "handleLoginSuccess J userData token =
     run [localStorage_setItem ''authToken'' token,
          localStorage_setItem ''user'' (stringify J userData),
          setIsAuthenticated True,
          setUser (Some userData)]"

text \<open>
  Modelled from the spec: the function \<^verbatim>\<open>logout\<close> of \<^verbatim>\<open>./services/api\<close>, which
  \<^verbatim>\<open>App.js\<close> imports (line 21) and awaits (line 105) and whose file is missing from the
  sources. Section 5 of the specification: the session store "is mutated only by
  loginSucceeded (write) and logout (clear)"; section 6: \<^verbatim>\<open>AuthGateway.logout()\<close> is a
  network call that succeeds or fails. \<^verbatim>\<open>App.js\<close> itself never removes an item from
  \<^verbatim>\<open>localStorage\<close>, so the clearing is the gateway function's: a call that resolves has
  cleared the store, a call that rejects has left it as it was. The argument \<open>r\<close> is the
  way the call settles. The clearing is no effect of a handler and is not in the trace.
\<close>

definition logout :: "unit settled \<Rightarrow> ('u, 'i, 'p) world \<Rightarrow> ('u, 'i, 'p) world" where
  "logout r w =
     (case r of
        Resolved _ \<Rightarrow> w\<lparr>localStorage := Map.empty\<rparr>
      | Rejected err \<Rightarrow> w)"

text \<open>\<^verbatim>\<open>handleLogout\<close> (lines 104 to 108): \<^verbatim>\<open>await logout()\<close> stands outside any
  \<^verbatim>\<open>try\<close>, so a rejection leaves the handler before the two setters. The handler
  continues on the state that the settled call of \<open>logout\<close> leaves.\<close>

definition handleLogout_start :: "('u, 'i, 'p) world \<Rightarrow> ('u, 'i, 'p) world" where
  "handleLogout_start = call Logout"

definition handleLogout_resume ::
  "unit settled \<Rightarrow> ('u, 'i, 'p) world \<Rightarrow> ('u, 'i, 'p) world \<times> completion" where
  "handleLogout_resume r w =
     (case r of
        Resolved _ \<Rightarrow> (run [setIsAuthenticated False, setUser None] (logout r w), Completed)
      | Rejected err \<Rightarrow> (logout r w, Threw err))"

definition handleLogout ::
  "unit settled \<Rightarrow> ('u, 'i, 'p) world \<Rightarrow> ('u, 'i, 'p) world \<times> completion" where
  "handleLogout r w = handleLogout_resume r (handleLogout_start w)"

text \<open>\<^verbatim>\<open>handleDownloadPDF\<close> (lines 113 to 121): nothing happens without a dataset;
  with one, \<^verbatim>\<open>downloadPDF(currentDataset.id)\<close> is awaited inside a \<^verbatim>\<open>try\<close> whose
  \<^verbatim>\<open>catch\<close> sets the error message.\<close>

definition handleDownloadPDF_start :: "('u, 'i, 'p) world \<Rightarrow> ('u, 'i, 'p) world" where
  "handleDownloadPDF_start w =
     (case currentDataset w of
        None \<Rightarrow> w
      | Some d \<Rightarrow> call (DownloadPDF (id_field d)) w)"

definition handleDownloadPDF_resume ::
  "unit settled \<Rightarrow> ('u, 'i, 'p) world \<Rightarrow> ('u, 'i, 'p) world" where
  "handleDownloadPDF_resume r =
     (case r of
        Resolved _ \<Rightarrow> run []
      | Rejected err \<Rightarrow> setError (Some ''Failed to download PDF''))"

text \<open>Without a dataset the handler ends with its synchronous part; with one it is
  suspended at the \<^verbatim>\<open>await\<close> and continues when the call settles.\<close>

definition handleDownloadPDF ::
  "unit settled \<Rightarrow> ('u, 'i, 'p) world \<Rightarrow> ('u, 'i, 'p) world" where
  "handleDownloadPDF r w =
     (case currentDataset w of
        None \<Rightarrow> handleDownloadPDF_start w
      | Some d \<Rightarrow> handleDownloadPDF_resume r (handleDownloadPDF_start w))"

text \<open>The error banner's button (line 192): \<^verbatim>\<open>() => setError(null)\<close>.\<close>

definition dismissError :: "('u, 'i, 'p) world \<Rightarrow> ('u, 'i, 'p) world" where
  "dismissError = setError None"

text \<open>The navigation buttons (lines 139, 153, 159, 166, 173, 180):
  \<^verbatim>\<open>() => setActiveTab(t)\<close>.\<close>

definition requestTab :: "string \<Rightarrow> ('u, 'i, 'p) world \<Rightarrow> ('u, 'i, 'p) world" where
  "requestTab t = setActiveTab t"

subsection \<open>Everything that can happen to the controller\<close>

text \<open>
  One step is the synchronous part of a handler or the continuation of a suspended
  one. Any interleaving of handlers is a sequence of steps.
\<close>

datatype ('u, 'i, 'p) step =
    Mount
  | LoadLatestDataset_settled "('i, 'p) dataset option settled"
  | UploadSucceeded "('i, 'p) upload_data"
  | SelectDataset "('i, 'p) dataset option"
  | LoginSucceeded 'u string
  | LogoutRequested
  | Logout_settled "unit settled"
  | DownloadRequested
  | Download_settled "unit settled"
  | TabRequested string
  | ErrorDismissed

definition step ::
  "'u JSON \<Rightarrow> ('u, 'i, 'p) step \<Rightarrow> ('u, 'i, 'p) world \<Rightarrow> ('u, 'i, 'p) world" where
  "step J st w =
     (case st of
        Mount \<Rightarrow> fst (mount_effect J w)
      | LoadLatestDataset_settled r \<Rightarrow> loadLatestDataset_resume r w
      | UploadSucceeded data \<Rightarrow> handleUploadSuccess data w
      | SelectDataset d \<Rightarrow> handleSelectDataset d w
      | LoginSucceeded userData token \<Rightarrow> handleLoginSuccess J userData token w
      | LogoutRequested \<Rightarrow> handleLogout_start w
      | Logout_settled r \<Rightarrow> fst (handleLogout_resume r w)
      | DownloadRequested \<Rightarrow> handleDownloadPDF_start w
      | Download_settled r \<Rightarrow> handleDownloadPDF_resume r w
      | TabRequested t \<Rightarrow> requestTab t w
      | ErrorDismissed \<Rightarrow> dismissError w)"


text \<open>A run of the controller: steps applied one after the other.\<close>

definition execute ::
  "'u JSON \<Rightarrow> ('u, 'i, 'p) step list \<Rightarrow> ('u, 'i, 'p) world \<Rightarrow> ('u, 'i, 'p) world" where
  "execute J sts w = foldl (\<lambda>s st. step J st s) w sts"

subsection \<open>Sample values for the worked examples\<close>

text \<open>
  A user record is a user name here. The stand-in for JSON writes the user \<open>u\<close> as the
  text \<open>user:u\<close>, reads such a text back, reads \<open>null\<close> as \<^verbatim>\<open>null\<close> and rejects every
  other text.
\<close>

type_synonym sample_world = "(string, string, nat list) world"

definition sample_JSON :: "string JSON" where
  "sample_JSON =
     \<lparr> parse = (\<lambda>s. if s = ''null'' then Inr None
                     else if take 5 s = ''user:'' then Inr (Some (drop 5 s))
                     else Inl SyntaxError),
       stringify = (\<lambda>u. ''user:'' @ u) \<rparr>"

definition sample_dataset :: "(string, nat list) dataset" where
  "sample_dataset = \<lparr> id_field = ''d1'', payload = [1, 2, 3] \<rparr>"

text \<open>The state of a fresh page over an empty \<^verbatim>\<open>localStorage\<close>.\<close>

definition fresh :: sample_world where
  "fresh = initial Map.empty"

text \<open>The state after an upload of the sample dataset.\<close>

definition with_dataset :: sample_world where
  "with_dataset = handleUploadSuccess \<lparr>dataset = Some sample_dataset\<rparr> fresh"

section \<open>Properties\<close>

lemmas setter_defs =
  emit_def setCurrentDataset_def setLoading_def setError_def setIsAuthenticated_def
  setUser_def setActiveTab_def localStorage_getItem_def localStorage_setItem_def
  console_error_def call_def run_def logout_def

lemmas handler_defs =
  loadLatestDataset_start_def loadLatestDataset_resume_def loadLatestDataset_def
  mount_effect_def handleUploadSuccess_def handleSelectDataset_def handleLoginSuccess_def
  handleLogout_start_def handleLogout_resume_def handleLogout_def
  handleDownloadPDF_start_def handleDownloadPDF_resume_def handleDownloadPDF_def
  dismissError_def requestTab_def

lemmas sample_defs =
  sample_JSON_def sample_dataset_def fresh_def with_dataset_def initial_def

subsection \<open>Loading flag\<close>

text \<open>
  C1 (as amended): of the three handlers that issue a gateway call, only
  \<^verbatim>\<open>loadLatestDataset\<close> touches the loading flag. It sets the flag before it calls
  \<^verbatim>\<open>getLatestDataset\<close>, so the flag is true while the call is in flight, and its
  \<^verbatim>\<open>finally\<close> block sets the flag to false as the last effect of the handler, however
  the call settles and whatever happened to the state in between. \<^verbatim>\<open>handleLogout\<close> and
  \<^verbatim>\<open>handleDownloadPDF\<close> leave the flag as they find it, both when they issue their call
  and when it settles.
\<close>

theorem C1_loading_contract:
  "trace (loadLatestDataset_start w) = trace w @ [SetLoading True, Call GetLatestDataset]
   \<and> loading (loadLatestDataset_start w) = True
   \<and> loading (loadLatestDataset_resume r w') = False
   \<and> last (trace (loadLatestDataset_resume r w')) = SetLoading False
   \<and> loading (handleLogout_start w) = loading w
   \<and> loading (fst (handleLogout_resume r1 w')) = loading w'
   \<and> loading (handleDownloadPDF_start w) = loading w
   \<and> loading (handleDownloadPDF_resume r2 w') = loading w'"
proof -
  have load_start:
    "trace (loadLatestDataset_start w) = trace w @ [SetLoading True, Call GetLatestDataset]"
    "loading (loadLatestDataset_start w) = True"
    by (simp_all add: loadLatestDataset_start_def setter_defs)
  have load_resume:
    "loading (loadLatestDataset_resume r w') = False"
    "last (trace (loadLatestDataset_resume r w')) = SetLoading False"
    by (cases r; simp add: loadLatestDataset_resume_def setter_defs)+
  have logout:
    "loading (handleLogout_start w) = loading w"
    "loading (fst (handleLogout_resume r1 w')) = loading w'"
    by (cases r1; simp add: handleLogout_start_def handleLogout_resume_def setter_defs)+
  have download:
    "loading (handleDownloadPDF_start w) = loading w"
    "loading (handleDownloadPDF_resume r2 w') = loading w'"
    by (cases r2; cases "currentDataset w";
        simp add: handleDownloadPDF_start_def handleDownloadPDF_resume_def setter_defs)+
  from load_start load_resume logout download show ?thesis
    by simp
qed

text \<open>
  C1, the claim as stated, fails: on a fresh page a logout issues its call while loading
  is false and never sets the flag, and so does a download once a dataset is there.
\<close>

theorem C1_counterexample:
  "loading (handleLogout_start fresh) = False
   \<and> trace (fst (handleLogout (Resolved ()) fresh))
       = [Call Logout, SetIsAuthenticated False, SetUser None]
   \<and> loading (handleDownloadPDF_start with_dataset) = False
   \<and> trace (handleDownloadPDF (Resolved ()) with_dataset)
       = trace with_dataset @ [Call (DownloadPDF ''d1'')]"
  by (simp add: handler_defs setter_defs sample_defs)

subsection \<open>The session store\<close>

text \<open>
  C2: the session store is changed by exactly two operations. \<^verbatim>\<open>handleLoginSuccess\<close>
  stores the token under \<^verbatim>\<open>authToken\<close> and the serialized user under \<^verbatim>\<open>user\<close>, and a
  logout whose call resolves leaves the store cleared. Every other step of the
  controller, a logout whose call rejects among them, leaves the store as it is. The
  writes of the login and the absence of any other write or removal are those of
  \<^verbatim>\<open>App.js\<close>; the clearing is that of \<open>logout\<close>, which is written from the specification.
\<close>

theorem C2_store_writes:
  "localStorage (step J st w) =
     (case st of
        LoginSucceeded userData token \<Rightarrow>
          (localStorage w)(''authToken'' \<mapsto> token, ''user'' \<mapsto> stringify J userData)
      | Logout_settled (Resolved x) \<Rightarrow> Map.empty
      | _ \<Rightarrow> localStorage w)
   \<and> localStorage (fst (handleLogout (Resolved y) w)) = Map.empty
   \<and> localStorage (fst (handleLogout (Rejected err) w)) = localStorage w"
proof (intro conjI)
  show "localStorage (step J st w) =
     (case st of
        LoginSucceeded userData token \<Rightarrow>
          (localStorage w)(''authToken'' \<mapsto> token, ''user'' \<mapsto> stringify J userData)
      | Logout_settled (Resolved x) \<Rightarrow> Map.empty
      | _ \<Rightarrow> localStorage w)"
  proof (cases st)
    case Mount
    then show ?thesis
      by (simp add: step_def mount_effect_def loadLatestDataset_start_def setter_defs Let_def
          split: option.split sum.split)
  next
    case (LoadLatestDataset_settled r')
    then show ?thesis
      by (cases r') (simp_all add: step_def loadLatestDataset_resume_def setter_defs)
  next
    case (Logout_settled r')
    then show ?thesis
      by (cases r') (simp_all add: step_def handleLogout_resume_def setter_defs)
  next
    case DownloadRequested
    then show ?thesis
      by (simp add: step_def handleDownloadPDF_start_def setter_defs split: option.split)
  next
    case (Download_settled r')
    then show ?thesis
      by (cases r') (simp_all add: step_def handleDownloadPDF_resume_def setter_defs)
  qed (simp_all add: step_def handler_defs setter_defs)
next
  show "localStorage (fst (handleLogout (Resolved y) w)) = Map.empty"
    by (simp add: handleLogout_def handleLogout_start_def handleLogout_resume_def setter_defs)
next
  show "localStorage (fst (handleLogout (Rejected err) w)) = localStorage w"
    by (simp add: handleLogout_def handleLogout_start_def handleLogout_resume_def setter_defs)
qed

text \<open>After a login of \<open>alice\<close> with the token \<open>tok1\<close> and a logout whose call
  resolves, the store holds neither the token nor the user.\<close>

lemma login_logout_store:
  "localStorage (fst (handleLogout (Resolved ())
       (handleLoginSuccess sample_JSON ''alice'' ''tok1'' fresh))) ''authToken'' = None
   \<and> localStorage (fst (handleLogout (Resolved ())
       (handleLoginSuccess sample_JSON ''alice'' ''tok1'' fresh))) ''user'' = None"
  by (simp add: handler_defs setter_defs sample_defs)

subsection \<open>Loading the latest dataset\<close>

text \<open>
  C3: when \<^verbatim>\<open>getLatestDataset\<close> rejects, with status 404, with any other status or
  without a response, and neither an error nor a dataset was there before, then neither
  is there after \<^verbatim>\<open>loadLatestDataset\<close> has completed.
\<close>

theorem C3_load_failure_silent:
  assumes "error w = None" and "currentDataset w = None"
  shows "error (loadLatestDataset (Rejected err) w) = None
         \<and> currentDataset (loadLatestDataset (Rejected err) w) = None"
  using assms
  by (simp add: loadLatestDataset_def loadLatestDataset_start_def
      loadLatestDataset_resume_def setter_defs)

text \<open>C3 on a fresh page, for the statuses 404 and 500.\<close>

theorem C3_witness:
  "error fresh = None \<and> currentDataset fresh = None
   \<and> error (loadLatestDataset (Rejected (HttpError 404)) fresh) = None
   \<and> currentDataset (loadLatestDataset (Rejected (HttpError 404)) fresh) = None
   \<and> error (loadLatestDataset (Rejected (HttpError 500)) fresh) = None
   \<and> currentDataset (loadLatestDataset (Rejected (HttpError 500)) fresh) = None"
proof -
  have e: "error fresh = None" and d: "currentDataset fresh = None"
    by (simp_all add: sample_defs)
  show ?thesis
    using e d C3_load_failure_silent [OF e d, of "HttpError 404"]
      C3_load_failure_silent [OF e d, of "HttpError 500"]
    by simp
qed

subsection \<open>Upload\<close>

text \<open>C4: after \<^verbatim>\<open>handleUploadSuccess\<close> with a dataset \<open>d\<close> that is not null, the
  current dataset is \<open>d\<close>, the error is absent and the active tab is the summary.\<close>

theorem C4_upload_success:
  "currentDataset (handleUploadSuccess \<lparr>dataset = Some d\<rparr> w) = Some d
   \<and> error (handleUploadSuccess \<lparr>dataset = Some d\<rparr> w) = None
   \<and> activeTab (handleUploadSuccess \<lparr>dataset = Some d\<rparr> w) = ''summary''"
  by (simp add: handleUploadSuccess_def setter_defs)

subsection \<open>Download\<close>

text \<open>
  C5: with a dataset \<open>d\<close> present, a download whose call rejects issues that one call for
  the id of \<open>d\<close> and sets the error to the text \<open>Failed to download PDF\<close>; every other
  field keeps its value. Dismissing the error afterwards sets it back to absent and adds
  one setter to the trace and no call.
\<close>

theorem C5_download_failure:
  assumes "currentDataset w = Some d"
  shows "handleDownloadPDF (Rejected err) w =
           w\<lparr>error := Some ''Failed to download PDF'',
             trace := trace w @ [Call (DownloadPDF (id_field d)),
                                 SetError (Some ''Failed to download PDF'')]\<rparr>
         \<and> dismissError (handleDownloadPDF (Rejected err) w) =
           w\<lparr>error := None,
             trace := trace w @ [Call (DownloadPDF (id_field d)),
                                 SetError (Some ''Failed to download PDF''),
                                 SetError None]\<rparr>"
  using assms
  by (simp add: handleDownloadPDF_def handleDownloadPDF_start_def
      handleDownloadPDF_resume_def dismissError_def setter_defs)

text \<open>C5 after the upload of the sample dataset, the call failing without a response.\<close>

theorem C5_witness:
  "currentDataset with_dataset = Some sample_dataset
   \<and> error (handleDownloadPDF (Rejected NetworkError) with_dataset)
       = Some ''Failed to download PDF''
   \<and> trace (handleDownloadPDF (Rejected NetworkError) with_dataset)
       = trace with_dataset @ [Call (DownloadPDF ''d1''),
                               SetError (Some ''Failed to download PDF'')]
   \<and> error (dismissError (handleDownloadPDF (Rejected NetworkError) with_dataset)) = None
   \<and> trace (dismissError (handleDownloadPDF (Rejected NetworkError) with_dataset))
       = trace with_dataset @ [Call (DownloadPDF ''d1''),
                               SetError (Some ''Failed to download PDF''), SetError None]"
proof -
  have d: "currentDataset with_dataset = Some sample_dataset"
    by (simp add: sample_defs handleUploadSuccess_def setter_defs)
  have i: "id_field sample_dataset = ''d1''"
    by (simp add: sample_dataset_def)
  note failure = C5_download_failure [OF d, of NetworkError, unfolded i]
  show ?thesis
    unfolding failure [THEN conjunct2]
    unfolding failure [THEN conjunct1]
    using d by simp
qed

text \<open>
  C8: without a dataset \<^verbatim>\<open>handleDownloadPDF\<close> does nothing: the state, the store and the
  trace are what they were, so no call was issued, however a call would have settled.
\<close>

theorem C8_download_without_dataset:
  assumes "currentDataset w = None"
  shows "handleDownloadPDF_start w = w \<and> handleDownloadPDF r w = w"
  using assms by (simp add: handleDownloadPDF_def handleDownloadPDF_start_def)

text \<open>C8 on a fresh page.\<close>

theorem C8_witness:
  "currentDataset fresh = None
   \<and> handleDownloadPDF_start fresh = fresh
   \<and> handleDownloadPDF (Rejected NetworkError) fresh = fresh"
proof -
  have d: "currentDataset fresh = None"
    by (simp add: sample_defs)
  from d C8_download_without_dataset [OF d, of "Rejected NetworkError"] show ?thesis
    by simp
qed

subsection \<open>Login, logout and the stored session\<close>

text \<open>
  C6: from any state, so from an unauthenticated one, \<^verbatim>\<open>handleLoginSuccess\<close> stores the
  token and the serialized user in \<^verbatim>\<open>localStorage\<close> and makes the session authenticated
  with the given user; a logout whose call then resolves completes and leaves the session
  unauthenticated with no user.
\<close>

theorem C6_login_then_logout:
  "(let w1 = handleLoginSuccess J userData token w;
        w2 = fst (handleLogout (Resolved x) w1)
    in localStorage w1 ''authToken'' = Some token
       \<and> localStorage w1 ''user'' = Some (stringify J userData)
       \<and> isAuthenticated w1 = True
       \<and> user w1 = Some userData
       \<and> snd (handleLogout (Resolved x) w1) = Completed
       \<and> isAuthenticated w2 = False
       \<and> user w2 = None)"
  by (simp add: handleLoginSuccess_def handleLogout_def handleLogout_start_def
      handleLogout_resume_def setter_defs Let_def)

text \<open>
  C9: when the call of \<^verbatim>\<open>logout\<close> rejects, \<^verbatim>\<open>handleLogout\<close> ends with that error
  uncaught, and nothing but the trace, which has the call, differs from before: the
  session is authenticated exactly if it was, with the user it had.
\<close>

theorem C9_logout_failure:
  "handleLogout (Rejected err) w = (w\<lparr>trace := trace w @ [Call Logout]\<rparr>, Threw err)
   \<and> isAuthenticated (fst (handleLogout (Rejected err) w)) = isAuthenticated w
   \<and> user (fst (handleLogout (Rejected err) w)) = user w"
  by (simp add: handleLogout_def handleLogout_start_def handleLogout_resume_def setter_defs)

text \<open>
  C7 (as amended): when \<^verbatim>\<open>localStorage\<close> holds a token that is not empty and a text
  that is not empty and is the JSON text of \<open>u\<close>, then the synchronous part of the mount
  effect completes with the session authenticated and the user \<open>u\<close>, and with the call
  of \<^verbatim>\<open>getLatestDataset\<close> issued and not yet settled.
\<close>

theorem C7_mount_restores_session:
  assumes "localStorage w ''authToken'' = Some token" and "token \<noteq> []"
    and "localStorage w ''user'' = Some savedUser" and "savedUser \<noteq> []"
    and "parse J savedUser = Inr u"
  shows "isAuthenticated (fst (mount_effect J w)) = True
         \<and> user (fst (mount_effect J w)) = u
         \<and> trace (fst (mount_effect J w)) =
             trace w @ [SetIsAuthenticated True, SetUser u, SetLoading True,
                        Call GetLatestDataset]
         \<and> snd (mount_effect J w) = Completed"
proof -
  from assms have "truthy (localStorage_getItem ''authToken'' w)"
    and "truthy (localStorage_getItem ''user'' w)"
    by (simp_all add: truthy_def localStorage_getItem_def)
  with assms have
    "mount_effect J w =
       (run [setIsAuthenticated True, setUser u, loadLatestDataset_start] w, Completed)"
    by (simp add: mount_effect_def localStorage_getItem_def)
  then show ?thesis
    by (simp add: loadLatestDataset_start_def setter_defs)
qed

text \<open>C7 (as amended) on the store that a login of \<open>alice\<close> with the token \<open>tok1\<close>
  leaves.\<close>

theorem C7_witness:
  "isAuthenticated (fst (mount_effect sample_JSON
      (initial [''authToken'' \<mapsto> ''tok1'', ''user'' \<mapsto> ''user:alice''] :: sample_world))) = True
   \<and> user (fst (mount_effect sample_JSON
      (initial [''authToken'' \<mapsto> ''tok1'', ''user'' \<mapsto> ''user:alice''] :: sample_world)))
       = Some ''alice''
   \<and> snd (mount_effect sample_JSON
      (initial [''authToken'' \<mapsto> ''tok1'', ''user'' \<mapsto> ''user:alice''] :: sample_world))
       = Completed"
proof -
  let ?w = "initial [''authToken'' \<mapsto> ''tok1'', ''user'' \<mapsto> ''user:alice''] :: sample_world"
  have t: "localStorage ?w ''authToken'' = Some ''tok1''"
    and s: "localStorage ?w ''user'' = Some ''user:alice''"
    by (simp_all add: initial_def)
  have p: "parse sample_JSON ''user:alice'' = Inr (Some ''alice'')"
    by (simp add: sample_JSON_def)
  have "''tok1'' \<noteq> []" and "''user:alice'' \<noteq> []"
    by simp_all
  with t s p show ?thesis
    using C7_mount_restores_session [of ?w "''tok1''" "''user:alice''" sample_JSON "Some ''alice''"]
    by simp
qed

text \<open>
  C7, the claim as stated, fails: with the empty string stored as the token beside a
  user record, the test \<^verbatim>\<open>token && savedUser\<close> is false and the mount effect leaves the
  session unauthenticated and without a user.
\<close>

theorem C7_counterexample:
  "localStorage (initial [''authToken'' \<mapsto> [], ''user'' \<mapsto> ''user:alice''] :: sample_world)
      ''authToken'' = Some []
   \<and> localStorage (initial [''authToken'' \<mapsto> [], ''user'' \<mapsto> ''user:alice''] :: sample_world)
      ''user'' = Some ''user:alice''
   \<and> isAuthenticated (fst (mount_effect sample_JSON
      (initial [''authToken'' \<mapsto> [], ''user'' \<mapsto> ''user:alice''] :: sample_world))) = False
   \<and> user (fst (mount_effect sample_JSON
      (initial [''authToken'' \<mapsto> [], ''user'' \<mapsto> ''user:alice''] :: sample_world))) = None"
  by (simp add: mount_effect_def loadLatestDataset_start_def truthy_def setter_defs initial_def)

subsection \<open>Who clears the error\<close>

text \<open>A step that is not the dismissal of the error, an upload or a resolved
  \<^verbatim>\<open>getLatestDataset\<close> keeps an error that is there.\<close>

lemma step_keeps_error:
  assumes "error w \<noteq> None"
    and "st \<noteq> ErrorDismissed"
    and "\<And>data. st \<noteq> UploadSucceeded data"
    and "\<And>data. st \<noteq> LoadLatestDataset_settled (Resolved data)"
  shows "error (step J st w) \<noteq> None"
proof (cases st)
  case Mount
  with assms(1) show ?thesis
    by (simp add: step_def mount_effect_def loadLatestDataset_start_def setter_defs Let_def
        split: option.split sum.split)
next
  case (LoadLatestDataset_settled r)
  with assms(4) obtain err where "r = Rejected err"
    by (cases r) auto
  with LoadLatestDataset_settled assms(1) show ?thesis
    by (simp add: step_def loadLatestDataset_resume_def setter_defs)
next
  case (UploadSucceeded data)
  with assms(3) [of data] show ?thesis by simp
next
  case (Logout_settled r)
  with assms(1) show ?thesis
    by (cases r) (simp_all add: step_def handleLogout_resume_def setter_defs)
next
  case DownloadRequested
  with assms(1) show ?thesis
    by (simp add: step_def handleDownloadPDF_start_def setter_defs split: option.split)
next
  case (Download_settled r)
  with assms(1) show ?thesis
    by (cases r) (simp_all add: step_def handleDownloadPDF_resume_def setter_defs)
next
  case ErrorDismissed
  with assms(2) show ?thesis by simp
qed (use assms(1) in \<open>simp_all add: step_def handler_defs setter_defs\<close>)

lemma execute_Nil: "execute J [] w = w"
  by (simp add: execute_def)

lemma execute_Cons: "execute J (st # sts) w = execute J sts (step J st w)"
  by (simp add: execute_def)

lemma execute_keeps_error:
  assumes "error w \<noteq> None"
    and "\<forall>st \<in> set sts. st \<noteq> ErrorDismissed
            \<and> (\<forall>data. st \<noteq> UploadSucceeded data)
            \<and> (\<forall>data. st \<noteq> LoadLatestDataset_settled (Resolved data))"
  shows "error (execute J sts w) \<noteq> None"
  using assms
proof (induction sts arbitrary: w)
  case Nil
  then show ?case by (simp add: execute_Nil)
next
  case (Cons st sts)
  from Cons.prems have "error (step J st w) \<noteq> None"
    by (intro step_keeps_error) simp_all
  moreover from Cons.prems have
    "\<forall>st \<in> set sts. st \<noteq> ErrorDismissed
            \<and> (\<forall>data. st \<noteq> UploadSucceeded data)
            \<and> (\<forall>data. st \<noteq> LoadLatestDataset_settled (Resolved data))"
    by simp
  ultimately show ?case
    using Cons.IH by (simp add: execute_Cons)
qed

text \<open>
  C10: a download whose call resolves leaves the error as it was, present or absent.
  And whenever an error is present before a run of the controller and absent after it,
  one of the steps of the run was the dismissal of the error, an upload, or a
  \<^verbatim>\<open>getLatestDataset\<close> that resolved.
\<close>

theorem C10_error_cleared_only_by:
  "error (handleDownloadPDF (Resolved x) w) = error w
   \<and> (error w' \<noteq> None \<and> error (execute J sts w') = None \<longrightarrow>
        (\<exists>st \<in> set sts. st = ErrorDismissed
            \<or> (\<exists>data. st = UploadSucceeded data)
            \<or> (\<exists>data. st = LoadLatestDataset_settled (Resolved data))))"
proof
  show "error (handleDownloadPDF (Resolved x) w) = error w"
    by (cases "currentDataset w")
      (simp_all add: handleDownloadPDF_def handleDownloadPDF_start_def
        handleDownloadPDF_resume_def setter_defs)
next
  show "error w' \<noteq> None \<and> error (execute J sts w') = None \<longrightarrow>
        (\<exists>st \<in> set sts. st = ErrorDismissed
            \<or> (\<exists>data. st = UploadSucceeded data)
            \<or> (\<exists>data. st = LoadLatestDataset_settled (Resolved data)))"
  proof (intro impI, rule ccontr)
    assume a: "error w' \<noteq> None \<and> error (execute J sts w') = None"
    assume "\<not> (\<exists>st \<in> set sts. st = ErrorDismissed
            \<or> (\<exists>data. st = UploadSucceeded data)
            \<or> (\<exists>data. st = LoadLatestDataset_settled (Resolved data)))"
    then have "\<forall>st \<in> set sts. st \<noteq> ErrorDismissed
            \<and> (\<forall>data. st \<noteq> UploadSucceeded data)
            \<and> (\<forall>data. st \<noteq> LoadLatestDataset_settled (Resolved data))"
      by blast
    with a have "error (execute J sts w') \<noteq> None"
      by (intro execute_keeps_error) simp_all
    with a show False by simp
  qed
qed

text \<open>
  C10 on a run that starts after a failed download of the sample dataset: a download
  that resolves keeps the error message, and so do a logout and a change of tab; the
  dismissal at the end of the run clears it.
\<close>

theorem C10_witness:
  "error (handleDownloadPDF (Rejected NetworkError) with_dataset) \<noteq> None
   \<and> error (handleDownloadPDF (Resolved ())
        (handleDownloadPDF (Rejected NetworkError) with_dataset))
       = Some ''Failed to download PDF''
   \<and> error (execute sample_JSON
        [DownloadRequested, Download_settled (Resolved ()), TabRequested ''history'']
        (handleDownloadPDF (Rejected NetworkError) with_dataset))
       = Some ''Failed to download PDF''
   \<and> error (execute sample_JSON
        [LogoutRequested, Logout_settled (Resolved ()), ErrorDismissed]
        (handleDownloadPDF (Rejected NetworkError) with_dataset)) = None
   \<and> ErrorDismissed \<in> set [LogoutRequested, Logout_settled (Resolved ()),
        ErrorDismissed :: (string, string, nat list) step]"
proof -
  let ?w = "handleDownloadPDF (Rejected NetworkError) with_dataset"
  have e: "error ?w = Some ''Failed to download PDF''"
    by (simp add: handler_defs setter_defs sample_defs)
  have kept: "error (execute sample_JSON
        [DownloadRequested, Download_settled (Resolved ()), TabRequested ''history''] ?w)
       = Some ''Failed to download PDF''"
    by (simp add: execute_def step_def handler_defs setter_defs sample_defs)
  have cleared: "error (execute sample_JSON
        [LogoutRequested, Logout_settled (Resolved ()), ErrorDismissed] ?w) = None"
    by (simp add: execute_def step_def handler_defs setter_defs sample_defs)
  from e kept cleared show ?thesis
    using C10_error_cleared_only_by [of "()" ?w ?w sample_JSON
        "[LogoutRequested, Logout_settled (Resolved ()), ErrorDismissed]"]
    by simp
qed

end
